theory Spec2Isabelle
  imports Complex_Main
begin

section \<open>Values shared by the two adapters\<close>

text \<open>
  The repository holds two Cython adapters: the coordinate-descent solver wrapper
  \<^verbatim>\<open>CD\<close> and the embedding wrapper \<^verbatim>\<open>UMAP1\<close>. Both marshal arrays to native
  routines that are not part of the sources. The native routines are parameters of the
  model (the record \<open>natives\<close>); what the adapters do around them is modelled from
  the code: validation, attribute writes, the order of native calls (a trace of events)
  and every raise (a value of type \<open>error\<close>).

  Floating-point buffers hold reals here: no theorem below computes with them. Array
  sizes are assumed to fit a C \<^verbatim>\<open>int\<close>. Console output is not modelled.
\<close>

datatype np_dtype = Float32 | Float64 | Int32 | Int64

datatype error =
  NotImplementedError
  | AttributeError
  | KeyError
  | TypeError
  | ValueError
  | AssertionError
  | PyException
  | DtypeMismatch
  | DimensionMismatch
  | BadShape
  | NativeCallFailure
  | DoubleFree

text \<open>A dense array as the adapters see it: its shape tuple, its dtype, its contents.\<close>

record ndarray =
  shape :: "nat list"
  adtype :: np_dtype
  elems :: "real list"

text \<open>
  Modelled from the spec: \<^verbatim>\<open>CumlArray.zeros\<close> (not among the sources), like
  \<^verbatim>\<open>np.zeros\<close>, allocates a buffer of the given shape and dtype initialised to zero.
\<close>

definition zeros :: "nat list \<Rightarrow> np_dtype \<Rightarrow> ndarray" where
  "zeros shp dt = \<lparr>shape = shp, adtype = dt, elems = replicate (prod_list shp) 0\<rparr>"

text \<open>
  A native routine fills a buffer the adapter allocated: it writes values in place and
  cannot change the buffer's size.
\<close>

definition populate :: "ndarray \<Rightarrow> real list \<Rightarrow> ndarray" where
  "populate buf vals =
     buf\<lparr>elems := take (length (elems buf)) vals @ drop (length vals) (elems buf)\<rparr>"

text \<open>A native entry point declared \<^verbatim>\<open>except +\<close> either returns or throws.\<close>

datatype 'a native_outcome = Returned 'a | Thrown

datatype precision = Single | Double

datatype handle = FreshHandle | UserHandle nat

text \<open>The arguments of \<^verbatim>\<open>cdFit\<close> and \<^verbatim>\<open>cdPredict\<close>, in the order of their declarations.\<close>

record cdfit_args =
  fa_input :: ndarray
  fa_n_rows :: nat
  fa_n_cols :: nat
  fa_labels :: ndarray
  fa_coef :: ndarray
  fa_fit_intercept :: bool
  fa_normalize :: bool
  fa_epochs :: int
  fa_loss :: int
  fa_alpha :: real
  fa_l1_ratio :: real
  fa_shuffle :: bool
  fa_tol :: real
  fa_sample_weight :: "ndarray option"

record cdpredict_args =
  pa_input :: ndarray
  pa_n_rows :: nat
  pa_n_cols :: nat
  pa_coef :: ndarray
  pa_intercept :: real
  pa_preds :: ndarray
  pa_loss :: int

text \<open>The parameter struct of the native embedding routine (\<^verbatim>\<open>umap/umapparams.h\<close>).\<close>

record UMAPParams =
  p_n_neighbors :: int
  p_n_components :: int
  p_n_epochs :: int
  p_learning_rate :: real
  p_min_dist :: real
  p_spread :: real
  p_init :: int
  p_set_op_mix_ratio :: real
  p_local_connectivity :: real
  p_repulsion_strength :: real
  p_negative_sample_rate :: int
  p_transform_queue_size :: real

text \<open>
  What crosses into native code, in the order it happens. \<open>UmapTransform\<close> stands for
  the native \<^verbatim>\<open>UMAP::transform\<close> the extern block declares.
\<close>

datatype event =
  CdFit precision cdfit_args
  | CdPredict precision cdpredict_args
  | HandleSync handle
  | Delete nat
  | NewKNN nat nat
  | NewUMAPParams nat
  | NewUMAP nat nat
  | UmapFit nat UMAPParams ndarray nat nat nat ndarray
  | UmapTransform nat

text \<open>
  The native library, a parameter of everything below. \<open>c_cast p x\<close> is the value
  \<open>x\<close> after the cast to the C floating type of width \<open>p\<close>.
\<close>

record natives =
  cdFit :: "precision \<Rightarrow> cdfit_args \<Rightarrow> (real list \<times> real) native_outcome"
  cdPredict :: "precision \<Rightarrow> cdpredict_args \<Rightarrow> real list native_outcome"
  c_cast :: "precision \<Rightarrow> real \<Rightarrow> real"
  UMAP_ctor :: "UMAPParams \<Rightarrow> unit native_outcome"
  UMAP_fit :: "UMAPParams \<Rightarrow> ndarray \<Rightarrow> nat \<Rightarrow> nat \<Rightarrow> real list"
  UMAPParams_new :: UMAPParams
  device_ctypes_pointer :: "ndarray \<Rightarrow> nat"

section \<open>The coordinate-descent adapter \<^verbatim>\<open>CD\<close>\<close>

text \<open>
  An instance. \<open>fitted_coef\<close> and \<open>fitted_intercept\<close> are the attributes
  \<^verbatim>\<open>coef_\<close> and \<open>intercept_\<close>, which hold Python's \<^verbatim>\<open>None\<close> until a fit; \<open>n_cols\<close>, \<open>dtype\<close> and \<open>n_alpha\<close> are attributes that
  do not exist until \<^verbatim>\<open>fit\<close> assigns them (\<open>None\<close> here: reading one raises
  \<^verbatim>\<open>AttributeError\<close>).
\<close>

record CD =
  handle :: handle
  verbose :: bool
  output_type :: "string option"
  loss :: string
  alpha :: real
  l1_ratio :: real
  fit_intercept :: bool
  normalize :: bool
  max_iter :: int
  tol :: real
  shuffle :: bool
  intercept_value :: real
  fitted_coef :: "ndarray option"
  fitted_intercept :: "real option"
  n_cols :: "nat option"
  dtype :: "np_dtype option"
  n_alpha :: "nat option"

text \<open>The keyword arguments of the constructor, with their defaults.\<close>

record CD_kwargs =
  kw_loss :: string
  kw_alpha :: real
  kw_l1_ratio :: real
  kw_fit_intercept :: bool
  kw_normalize :: bool
  kw_max_iter :: int
  kw_tol :: real
  kw_shuffle :: bool
  kw_handle :: "nat option"
  kw_output_type :: "string option"
  kw_verbose :: bool

definition CD_defaults :: CD_kwargs where
  "CD_defaults =
     \<lparr>kw_loss = ''squared_loss'', kw_alpha = 0.0001, kw_l1_ratio = 0.15,
      kw_fit_intercept = True, kw_normalize = False, kw_max_iter = 1000,
      kw_tol = 0.001, kw_shuffle = True, kw_handle = None, kw_output_type = None,
      kw_verbose = False\<rparr>"

text \<open>
  Modelled from the spec: \<^verbatim>\<open>Base.__init__\<close> (\<^verbatim>\<open>cuml.common.base\<close>, not among the
  sources) binds the instance to an execution stream; the class docstring says that a
  handle of \<^verbatim>\<open>None\<close> makes it create a new one.
\<close>

definition Base_init :: "nat option \<Rightarrow> handle" where
  "Base_init h = (case h of None \<Rightarrow> FreshHandle | Some k \<Rightarrow> UserHandle k)"

definition CD_init :: "CD_kwargs \<Rightarrow> error + CD" where
  "CD_init kw =
     (if kw_loss kw \<notin> set [''squared_loss''] then Inl NotImplementedError
      else Inr
        \<lparr>handle = Base_init (kw_handle kw), verbose = kw_verbose kw,
         output_type = kw_output_type kw,
         loss = kw_loss kw, alpha = kw_alpha kw, l1_ratio = kw_l1_ratio kw,
         fit_intercept = kw_fit_intercept kw, normalize = kw_normalize kw,
         max_iter = kw_max_iter kw, tol = kw_tol kw, shuffle = kw_shuffle kw,
         intercept_value = 0, fitted_coef = None, fitted_intercept = None,
         n_cols = None, dtype = None, n_alpha = None\<rparr>)"

definition get_loss_int :: "CD \<Rightarrow> error + int" where
  "get_loss_int self = (if loss self = ''squared_loss'' then Inr 0 else Inl KeyError)"

text \<open>
  Modelled from the spec: the row and column counts that \<^verbatim>\<open>input_to_cuml_array\<close>
  (not among the sources) reports for a shape. A one-dimensional array of length \<open>n\<close>
  counts as \<open>n\<close> rows of one column (the target vector of the class docstring is a
  series); any other number of dimensions than one or two is a bad shape.
\<close>

fun array_dims :: "nat list \<Rightarrow> (nat \<times> nat) option" where
  "array_dims [n] = Some (n, 1)"
| "array_dims [n, m] = Some (n, m)"
| "array_dims _ = None"

text \<open>
  Modelled from the spec: \<^verbatim>\<open>input_to_cuml_array\<close> (\<^verbatim>\<open>cuml.common.input_utils\<close>, not
  among the sources). The spec has the adapters reject or explicitly convert mismatched
  dtypes and validate row and column counts before the native call: a bad shape and a
  mismatched dtype are invalid arguments, a wrong column or row count is a dimension
  mismatch. The checks run in the order of the keyword arguments at the call sites: the
  conversion and the dtype, then the counts. It returns the converted array, its row
  and column counts and its dtype.
\<close>

definition input_to_cuml_array ::
  "ndarray \<Rightarrow> np_dtype list option \<Rightarrow> np_dtype option \<Rightarrow> nat option \<Rightarrow> nat option
     \<Rightarrow> error + (ndarray \<times> nat \<times> nat \<times> np_dtype)" where
  "input_to_cuml_array X check_dtype convert_to_dtype check_rows check_cols =
     (case array_dims (shape X) of
        None \<Rightarrow> Inl BadShape
      | Some (r, c) \<Rightarrow>
          let X_m = (case convert_to_dtype of None \<Rightarrow> X | Some d \<Rightarrow> X\<lparr>adtype := d\<rparr>) in
          if (case check_dtype of None \<Rightarrow> False | Some ds \<Rightarrow> adtype X_m \<notin> set ds)
          then Inl DtypeMismatch
          else if (case check_rows of None \<Rightarrow> False | Some n \<Rightarrow> r \<noteq> n)
          then Inl DimensionMismatch
          else if (case check_cols of None \<Rightarrow> False | Some n \<Rightarrow> c \<noteq> n)
          then Inl DimensionMismatch
          else Inr (X_m, r, c, adtype X_m))"

text \<open>
  \<^verbatim>\<open>CD.fit\<close>, lines 226 to 247: the three validations. \<open>n_cols\<close> and \<open>dtype\<close> are
  assigned on the instance by the first one, before \<open>y\<close> is looked at.
\<close>

definition fit_sample_weight ::
  "ndarray option \<Rightarrow> np_dtype \<Rightarrow> bool \<Rightarrow> nat \<Rightarrow> error + ndarray option" where
  "fit_sample_weight sample_weight dt convert_dtype n_rows =
     (case sample_weight of
        None \<Rightarrow> Inr None
      | Some w \<Rightarrow>
          (case input_to_cuml_array w (Some [dt]) (if convert_dtype then Some dt else None)
                  (Some n_rows) (Some 1) of
             Inl e \<Rightarrow> Inl e
           | Inr (sample_weight_m, _) \<Rightarrow> Inr (Some sample_weight_m)))"

text \<open>
  Lines 249 to 303: the coefficient buffer is allocated on the instance, then the call is
  dispatched on \<open>self.dtype\<close>. The two branches are written out as in the source.
\<close>

definition fit_native ::
  "natives \<Rightarrow> CD \<Rightarrow> ndarray \<Rightarrow> nat \<Rightarrow> nat \<Rightarrow> np_dtype \<Rightarrow> ndarray \<Rightarrow> ndarray option
     \<Rightarrow> error option \<times> CD \<times> event list" where
  "fit_native N self0 X_m n_rows nc dt y_m sample_weight_m =
     (let coef = zeros [nc] dt;
          self = self0\<lparr>n_alpha := Some 1, fitted_coef := Some coef\<rparr>
      in
      if dt = Float32 then
        (case get_loss_int self of
           Inl e \<Rightarrow> (Some e, self, [])
         | Inr li \<Rightarrow>
             let args = \<lparr>fa_input = X_m, fa_n_rows = n_rows, fa_n_cols = nc,
                   fa_labels = y_m, fa_coef = coef,
                   fa_fit_intercept = fit_intercept self, fa_normalize = normalize self,
                   fa_epochs = max_iter self, fa_loss = li,
                   fa_alpha = c_cast N Single (alpha self),
                   fa_l1_ratio = c_cast N Single (l1_ratio self),
                   fa_shuffle = shuffle self, fa_tol = c_cast N Single (tol self),
                   fa_sample_weight = sample_weight_m\<rparr>
             in
             (case cdFit N Single args of
                Thrown \<Rightarrow> (Some NativeCallFailure, self, [CdFit Single args])
              | Returned (cv, c_intercept1) \<Rightarrow>
                  (None,
                   self\<lparr>fitted_coef := Some (populate coef cv), fitted_intercept := Some c_intercept1\<rparr>,
                   [CdFit Single args, HandleSync (handle self)])))
      else
        (case get_loss_int self of
           Inl e \<Rightarrow> (Some e, self, [])
         | Inr li \<Rightarrow>
             let args = \<lparr>fa_input = X_m, fa_n_rows = n_rows, fa_n_cols = nc,
                   fa_labels = y_m, fa_coef = coef,
                   fa_fit_intercept = fit_intercept self, fa_normalize = normalize self,
                   fa_epochs = max_iter self, fa_loss = li,
                   fa_alpha = c_cast N Double (alpha self),
                   fa_l1_ratio = c_cast N Double (l1_ratio self),
                   fa_shuffle = shuffle self, fa_tol = c_cast N Double (tol self),
                   fa_sample_weight = sample_weight_m\<rparr>
             in
             (case cdFit N Double args of
                Thrown \<Rightarrow> (Some NativeCallFailure, self, [CdFit Double args])
              | Returned (cv, c_intercept2) \<Rightarrow>
                  (None,
                   self\<lparr>fitted_coef := Some (populate coef cv), fitted_intercept := Some c_intercept2\<rparr>,
                   [CdFit Double args, HandleSync (handle self)]))))"

text \<open>
  \<^verbatim>\<open>CD.fit\<close>: the outcome (\<open>None\<close> when it returns \<^verbatim>\<open>self\<close>, the error when it
  raises), the instance as the call leaves it, and the native calls it made.
\<close>

definition CD_fit ::
  "natives \<Rightarrow> CD \<Rightarrow> ndarray \<Rightarrow> ndarray \<Rightarrow> bool \<Rightarrow> ndarray option
     \<Rightarrow> error option \<times> CD \<times> event list" where
  "CD_fit N self X y convert_dtype sample_weight =
     (case input_to_cuml_array X (Some [Float32, Float64]) None None None of
        Inl e \<Rightarrow> (Some e, self, [])
      | Inr (X_m, n_rows, nc, dt) \<Rightarrow>
          let self1 = self\<lparr>n_cols := Some nc, dtype := Some dt\<rparr> in
          (case input_to_cuml_array y (Some [dt]) (if convert_dtype then Some dt else None)
                  (Some n_rows) (Some 1) of
             Inl e \<Rightarrow> (Some e, self1, [])
           | Inr (y_m, _) \<Rightarrow>
               (case fit_sample_weight sample_weight dt convert_dtype n_rows of
                  Inl e \<Rightarrow> (Some e, self1, [])
                | Inr sample_weight_m \<Rightarrow>
                    fit_native N self1 X_m n_rows nc dt y_m sample_weight_m)))"

text \<open>
  \<^verbatim>\<open>CD.predict\<close>. Reading \<open>self.dtype\<close> and \<open>self.n_cols\<close> comes first (they are
  arguments of the validation), \<open>self.coef_.ptr\<close> next, and the cast of
  \<open>self.intercept_\<close> to a C float is among the arguments of the native call.
\<close>

definition predict_native ::
  "natives \<Rightarrow> CD \<Rightarrow> np_dtype \<Rightarrow> ndarray \<Rightarrow> nat \<Rightarrow> nat \<Rightarrow> ndarray
     \<Rightarrow> (error + ndarray) \<times> event list" where
  "predict_native N self dt X_m n_rows nc coef =
     (let preds = zeros [n_rows] dt in
      if dt = Float32 then
        (case fitted_intercept self of
           None \<Rightarrow> (Inl TypeError, [])
         | Some b \<Rightarrow>
             (case get_loss_int self of
                Inl e \<Rightarrow> (Inl e, [])
              | Inr li \<Rightarrow>
                  let args = \<lparr>pa_input = X_m, pa_n_rows = n_rows, pa_n_cols = nc,
                        pa_coef = coef, pa_intercept = c_cast N Single b,
                        pa_preds = preds, pa_loss = li\<rparr>
                  in
                  (case cdPredict N Single args of
                     Thrown \<Rightarrow> (Inl NativeCallFailure, [CdPredict Single args])
                   | Returned pv \<Rightarrow>
                       (Inr (populate preds pv),
                        [CdPredict Single args, HandleSync (handle self)]))))
      else
        (case fitted_intercept self of
           None \<Rightarrow> (Inl TypeError, [])
         | Some b \<Rightarrow>
             (case get_loss_int self of
                Inl e \<Rightarrow> (Inl e, [])
              | Inr li \<Rightarrow>
                  let args = \<lparr>pa_input = X_m, pa_n_rows = n_rows, pa_n_cols = nc,
                        pa_coef = coef, pa_intercept = c_cast N Double b,
                        pa_preds = preds, pa_loss = li\<rparr>
                  in
                  (case cdPredict N Double args of
                     Thrown \<Rightarrow> (Inl NativeCallFailure, [CdPredict Double args])
                   | Returned pv \<Rightarrow>
                       (Inr (populate preds pv),
                        [CdPredict Double args, HandleSync (handle self)])))))"

definition CD_predict ::
  "natives \<Rightarrow> CD \<Rightarrow> ndarray \<Rightarrow> bool \<Rightarrow> (error + ndarray) \<times> event list" where
  "CD_predict N self X convert_dtype =
     (case dtype self of
        None \<Rightarrow> (Inl AttributeError, [])
      | Some dt \<Rightarrow>
          (case n_cols self of
             None \<Rightarrow> (Inl AttributeError, [])
           | Some fitted_cols \<Rightarrow>
               (case input_to_cuml_array X (Some [dt])
                       (if convert_dtype then Some dt else None) None (Some fitted_cols) of
                  Inl e \<Rightarrow> (Inl e, [])
                | Inr (X_m, n_rows, nc, _) \<Rightarrow>
                    (case fitted_coef self of
                       None \<Rightarrow> (Inl AttributeError, [])
                     | Some coef \<Rightarrow> predict_native N self dt X_m n_rows nc coef))))"

section \<open>The embedding adapter \<^verbatim>\<open>UMAP1\<close>\<close>

text \<open>
  The adapter owns three C++ objects through raw pointers. The native heap maps an
  address to the object that lives there; address \<open>0\<close> is \<^verbatim>\<open>NULL\<close>, and an address
  is never handed out twice, so that deleting an address that is no longer live shows
  as the error \<open>DoubleFree\<close> (undefined behaviour in C++).
\<close>

datatype native_obj = KNN_obj nat | Params_obj UMAPParams | UMAP_obj nat

record native_heap =
  next_addr :: nat
  objs :: "nat \<rightharpoonup> native_obj"

definition empty_heap :: native_heap where
  "empty_heap = \<lparr>next_addr = 0, objs = Map.empty\<rparr>"

definition heap_new :: "native_obj \<Rightarrow> native_heap \<Rightarrow> nat \<times> native_heap" where
  "heap_new ob h =
     (Suc (next_addr h),
      \<lparr>next_addr = Suc (next_addr h), objs = (objs h)(Suc (next_addr h) \<mapsto> ob)\<rparr>)"

definition heap_delete :: "nat \<Rightarrow> native_heap \<Rightarrow> error + native_heap" where
  "heap_delete p h =
     (if p = 0 then Inr h
      else (case objs h p of
              None \<Rightarrow> Inl DoubleFree
            | Some _ \<Rightarrow> Inr (h\<lparr>objs := (objs h)(p := None)\<rparr>)))"

text \<open>
  The instance: the three pointers and the two device addresses. Cython sets the
  attributes of a \<^verbatim>\<open>cdef class\<close> to zero before \<^verbatim>\<open>__cinit__\<close>, whose body is empty.
\<close>

record UMAP1 =
  umap_params :: nat
  umap :: nat
  knn :: nat
  embeddings :: nat
  raw_data :: nat

definition UMAP1_cinit :: UMAP1 where
  "UMAP1_cinit = \<lparr>umap_params = 0, umap = 0, knn = 0, embeddings = 0, raw_data = 0\<rparr>"

text \<open>A Python value as the \<^verbatim>\<open>init\<close> argument can be.\<close>

datatype py_value = PyStr string | PyInt int | PyFloat real | PyNone

record fit_kwargs =
  f_n_neighbors :: int
  f_n_components :: int
  f_n_epochs :: int
  f_learning_rate :: real
  f_min_dist :: real
  f_spread :: real
  f_set_op_mix_ratio :: real
  f_local_connectivity :: real
  f_repulsion_strength :: real
  f_negative_sample_rate :: int
  f_transform_queue_size :: real
  f_init :: py_value

definition fit_defaults :: fit_kwargs where
  "fit_defaults =
     \<lparr>f_n_neighbors = 2, f_n_components = 2, f_n_epochs = 500, f_learning_rate = 1,
      f_min_dist = 0.1, f_spread = 1, f_set_op_mix_ratio = 1, f_local_connectivity = 1,
      f_repulsion_strength = 1, f_negative_sample_rate = 5, f_transform_queue_size = 4,
      f_init = PyStr ''spectral''\<rparr>"

text \<open>
  Lines 116 to 123: each pointer that is not \<^verbatim>\<open>NULL\<close> is deleted. The pointer itself
  keeps its value.
\<close>

definition release ::
  "nat \<Rightarrow> native_heap \<times> event list \<Rightarrow> error + native_heap \<times> event list" where
  "release p hs =
     (if p \<noteq> 0 then
        (case heap_delete p (fst hs) of
           Inl e \<Rightarrow> Inl e
         | Inr h' \<Rightarrow> Inr (h', snd hs @ [Delete p]))
      else Inr hs)"

text \<open>
  Lines 145 to 150. The \<^verbatim>\<open>raise\<close> formats its message with \<^verbatim>\<open>%d\<close> first, which
  itself raises \<^verbatim>\<open>TypeError\<close> on a value that is not a number; on a number the
  \<^verbatim>\<open>Exception\<close> is raised.
\<close>

fun init_error :: "py_value \<Rightarrow> error" where
  "init_error (PyInt _) = PyException"
| "init_error (PyFloat _) = PyException"
| "init_error _ = TypeError"

definition init_code :: "py_value \<Rightarrow> error + int" where
  "init_code init =
     (if init = PyStr ''spectral'' then Inr 1
      else if init = PyStr ''random'' then Inr 0
      else Inl (init_error init))"

text \<open>
  Modelled from the spec: \<^verbatim>\<open>numba_utils.row_matrix\<close> (not among the sources) hands the
  dense matrix on to the native routine; the memory layout is not modelled.
\<close>

definition row_matrix :: "ndarray \<Rightarrow> ndarray" where
  "row_matrix X = X"

text \<open>The cast of a Python float to a C \<^verbatim>\<open>int\<close> truncates towards zero.\<close>

definition c_int_of_float :: "real \<Rightarrow> int" where
  "c_int_of_float x = (if 0 \<le> x then \<lfloor>x\<rfloor> else \<lceil>x\<rceil>)"

text \<open>
  Lines 128 to 173, after the releases: the assertion, the two device arrays, the new
  neighbour index and parameter struct, the \<^verbatim>\<open>init\<close> check, the new \<^verbatim>\<open>UMAP\<close> object
  (its constructor is declared \<^verbatim>\<open>except +\<close>) and the native fit.
\<close>

definition fit_body ::
  "natives \<Rightarrow> UMAP1 \<Rightarrow> native_heap \<Rightarrow> event list \<Rightarrow> ndarray \<Rightarrow> fit_kwargs
     \<Rightarrow> (error + ndarray) \<times> UMAP1 \<times> native_heap \<times> event list" where
  "fit_body N self h tr X kw =
     (if length (shape X) \<noteq> 2 then (Inl AssertionError, self, h, tr)
      else
        let X_m = row_matrix X;
            self1 = self\<lparr>raw_data := device_ctypes_pointer N X_m\<rparr>
        in
        if f_n_components kw < 0 then (Inl ValueError, self1, h, tr)
        else
          let arr_embed = zeros [shape X_m ! 0, nat (f_n_components kw)] Float32;
              self2 = self1\<lparr>embeddings := device_ctypes_pointer N arr_embed\<rparr>;
              (k, h1) = heap_new (KNN_obj (shape X_m ! 1)) h;
              self3 = self2\<lparr>knn := k\<rparr>;
              P1 = (UMAPParams_new N)
                     \<lparr>p_n_neighbors := f_n_neighbors kw,
                      p_n_components := f_n_components kw,
                      p_n_epochs := f_n_epochs kw\<rparr>;
              (pp, h2) = heap_new (Params_obj P1) h1;
              self4 = self3\<lparr>umap_params := pp\<rparr>;
              tr2 = tr @ [NewKNN k (shape X_m ! 1), NewUMAPParams pp]
          in
          (case init_code (f_init kw) of
             Inl e \<Rightarrow> (Inl e, self4, h2, tr2)
           | Inr code \<Rightarrow>
               let P2 = P1
                     \<lparr>p_init := code,
                      p_learning_rate := c_cast N Single (f_learning_rate kw),
                      p_min_dist := c_cast N Single (f_min_dist kw),
                      p_spread := c_cast N Single (f_spread kw),
                      p_set_op_mix_ratio := c_cast N Single (f_set_op_mix_ratio kw),
                      p_local_connectivity := c_cast N Single (f_local_connectivity kw),
                      p_repulsion_strength := c_cast N Single (f_repulsion_strength kw),
                      p_negative_sample_rate := f_negative_sample_rate kw,
                      p_transform_queue_size :=
                        of_int (c_int_of_float (f_transform_queue_size kw))\<rparr>;
                   h3 = h2\<lparr>objs := (objs h2)(pp \<mapsto> Params_obj P2)\<rparr>
               in
               (case UMAP_ctor N P2 of
                  Thrown \<Rightarrow> (Inl NativeCallFailure, self4, h3, tr2)
                | Returned _ \<Rightarrow>
                    let (u, h4) = heap_new (UMAP_obj pp) h3;
                        self5 = self4\<lparr>umap := u\<rparr>;
                        emb = populate arr_embed
                                (UMAP_fit N P2 X_m (shape X_m ! 0) (shape X_m ! 1))
                    in
                    (Inr emb, self5, h4,
                     tr2 @ [NewUMAP u pp,
                            UmapFit u P2 X_m (shape X_m ! 0) (shape X_m ! 1) k arr_embed]))))"

text \<open>
  \<^verbatim>\<open>UMAP1.fit\<close>: what it returns or raises, the instance and the native heap as the
  call leaves them, and the native operations in order.
\<close>

definition UMAP1_fit ::
  "natives \<Rightarrow> UMAP1 \<Rightarrow> native_heap \<Rightarrow> ndarray \<Rightarrow> fit_kwargs
     \<Rightarrow> (error + ndarray) \<times> UMAP1 \<times> native_heap \<times> event list" where
  "UMAP1_fit N self h X kw =
     (case release (umap_params self) (h, []) of
        Inl e \<Rightarrow> (Inl e, self, h, [])
      | Inr (h1, t1) \<Rightarrow>
          (case release (umap self) (h1, t1) of
             Inl e \<Rightarrow> (Inl e, self, h1, t1)
           | Inr (h2, t2) \<Rightarrow>
               (case release (knn self) (h2, t2) of
                  Inl e \<Rightarrow> (Inl e, self, h2, t2)
                | Inr (h3, t3) \<Rightarrow> fit_body N self h3 t3 X kw)))"

text \<open>
  A method call on an instance from Python. The class body defines \<^verbatim>\<open>__cinit__\<close>,
  \<^verbatim>\<open>__dealloc__\<close> and \<^verbatim>\<open>fit\<close>; the first two are the type's allocation hooks, not
  attributes, so \<^verbatim>\<open>fit\<close> is the one name a caller can invoke.
\<close>

definition UMAP1_methods :: "string list" where
  "UMAP1_methods = [''fit'']"

definition UMAP1_call ::
  "natives \<Rightarrow> string \<Rightarrow> UMAP1 \<Rightarrow> native_heap \<Rightarrow> ndarray \<Rightarrow> fit_kwargs
     \<Rightarrow> (error + ndarray) \<times> UMAP1 \<times> native_heap \<times> event list" where
  "UMAP1_call N name self h X kw =
     (if name \<notin> set UMAP1_methods then (Inl AttributeError, self, h, [])
      else UMAP1_fit N self h X kw)"

section \<open>Observations on traces and test doubles\<close>

fun is_native_fit :: "event \<Rightarrow> bool" where
  "is_native_fit (CdFit _ _) = True"
| "is_native_fit (UmapFit _ _ _ _ _ _ _) = True"
| "is_native_fit _ = False"

fun is_native_compute :: "event \<Rightarrow> bool" where
  "is_native_compute (CdFit _ _) = True"
| "is_native_compute (CdPredict _ _) = True"
| "is_native_compute (UmapFit _ _ _ _ _ _ _) = True"
| "is_native_compute (UmapTransform _) = True"
| "is_native_compute _ = False"

fun is_transform :: "event \<Rightarrow> bool" where
  "is_transform (UmapTransform _) = True"
| "is_transform _ = False"

fun is_sync :: "event \<Rightarrow> bool" where
  "is_sync (HandleSync _) = True"
| "is_sync _ = False"

fun dtype_of :: "precision \<Rightarrow> np_dtype" where
  "dtype_of Single = Float32"
| "dtype_of Double = Float64"

text \<open>
  A native library for the concrete runs below: its routines return, the solver writes
  ones and the embedding routine writes nothing.
\<close>

definition natives0 :: natives where
  "natives0 =
     \<lparr>cdFit = (\<lambda>p a. Returned (replicate (fa_n_cols a) 1, 0)),
      cdPredict = (\<lambda>p a. Returned (replicate (pa_n_rows a) 1)),
      c_cast = (\<lambda>p x. x),
      UMAP_ctor = (\<lambda>P. Returned ()),
      UMAP_fit = (\<lambda>P X n d. []),
      UMAPParams_new =
        \<lparr>p_n_neighbors = 0, p_n_components = 0, p_n_epochs = 0, p_learning_rate = 0,
         p_min_dist = 0, p_spread = 0, p_init = 0, p_set_op_mix_ratio = 0,
         p_local_connectivity = 0, p_repulsion_strength = 0,
         p_negative_sample_rate = 0, p_transform_queue_size = 0\<rparr>,
      device_ctypes_pointer = (\<lambda>X. 0)\<rparr>"

definition array32 :: "nat list \<Rightarrow> ndarray" where
  "array32 shp = zeros shp Float32"

definition array64 :: "nat list \<Rightarrow> ndarray" where
  "array64 shp = zeros shp Float64"

text \<open>A fresh default instance of \<^verbatim>\<open>CD\<close>, as \<open>CD_init CD_defaults\<close> returns it.\<close>

definition cd0 :: CD where
  "cd0 =
     \<lparr>handle = FreshHandle, verbose = False, output_type = None,
      loss = ''squared_loss'', alpha = 0.0001, l1_ratio = 0.15,
      fit_intercept = True, normalize = False, max_iter = 1000, tol = 0.001,
      shuffle = True, intercept_value = 0, fitted_coef = None, fitted_intercept = None,
      n_cols = None, dtype = None, n_alpha = None\<rparr>"

text \<open>
  A sequence of fit calls none of which returns: the instance they leave behind, or
  \<open>None\<close> as soon as one of them succeeds.
\<close>

fun unsuccessful_fits ::
  "natives \<Rightarrow> CD \<Rightarrow> (ndarray \<times> ndarray \<times> bool \<times> ndarray option) list \<Rightarrow> CD option" where
  "unsuccessful_fits N self [] = Some self"
| "unsuccessful_fits N self ((X, y, cd, sw) # calls) =
     (case CD_fit N self X y cd sw of
        (None, _, _) \<Rightarrow> None
      | (Some e, self', _) \<Rightarrow> unsuccessful_fits N self' calls)"

text \<open>
  The argument lists of \<^verbatim>\<open>cdFit\<close> and \<^verbatim>\<open>cdPredict\<close> as one function of the
  precision: what it means for the two branches of a dispatch to pass the same
  arguments, up to the width of the casts.
\<close>

definition uniform_fit_args ::
  "natives \<Rightarrow> precision \<Rightarrow> CD \<Rightarrow> ndarray \<Rightarrow> nat \<Rightarrow> nat \<Rightarrow> ndarray \<Rightarrow> ndarray option
     \<Rightarrow> cdfit_args" where
  "uniform_fit_args N p self X_m n_rows nc y_m sample_weight_m =
     \<lparr>fa_input = X_m, fa_n_rows = n_rows, fa_n_cols = nc, fa_labels = y_m,
      fa_coef = zeros [nc] (dtype_of p),
      fa_fit_intercept = fit_intercept self, fa_normalize = normalize self,
      fa_epochs = max_iter self, fa_loss = 0,
      fa_alpha = c_cast N p (alpha self), fa_l1_ratio = c_cast N p (l1_ratio self),
      fa_shuffle = shuffle self, fa_tol = c_cast N p (tol self),
      fa_sample_weight = sample_weight_m\<rparr>"

definition uniform_predict_args ::
  "natives \<Rightarrow> precision \<Rightarrow> ndarray \<Rightarrow> nat \<Rightarrow> nat \<Rightarrow> ndarray \<Rightarrow> real \<Rightarrow> cdpredict_args" where
  "uniform_predict_args N p X_m n_rows nc coef b =
     \<lparr>pa_input = X_m, pa_n_rows = n_rows, pa_n_cols = nc, pa_coef = coef,
      pa_intercept = c_cast N p b, pa_preds = zeros [n_rows] (dtype_of p), pa_loss = 0\<rparr>"

text \<open>The default instance after a fit on four rows of two columns with \<open>natives0\<close>.\<close>

definition cd_fitted0 :: CD where
  "cd_fitted0 =
     cd0\<lparr>fitted_coef := Some \<lparr>shape = [2], adtype = Float32, elems = replicate 2 1\<rparr>,
         fitted_intercept := Some 0, n_cols := Some 2, dtype := Some Float32,
         n_alpha := Some 1\<rparr>"

text \<open>
  An instance owns its handles when each pointer is \<^verbatim>\<open>NULL\<close> or points to a live
  object of its kind: the state after construction and after every fit that returned.
  \<open>held\<close> lists the pointers that are not \<^verbatim>\<open>NULL\<close>, in the order fit deletes them.
\<close>

fun holds_params :: "native_obj option \<Rightarrow> bool" where
  "holds_params (Some (Params_obj _)) = True"
| "holds_params _ = False"

fun holds_umap :: "native_obj option \<Rightarrow> bool" where
  "holds_umap (Some (UMAP_obj _)) = True"
| "holds_umap _ = False"

fun holds_knn :: "native_obj option \<Rightarrow> bool" where
  "holds_knn (Some (KNN_obj _)) = True"
| "holds_knn _ = False"

definition owns :: "UMAP1 \<Rightarrow> native_heap \<Rightarrow> bool" where
  "owns self h =
     ((umap_params self = 0 \<or> holds_params (objs h (umap_params self))) \<and>
      (umap self = 0 \<or> holds_umap (objs h (umap self))) \<and>
      (knn self = 0 \<or> holds_knn (objs h (knn self))))"

definition held :: "UMAP1 \<Rightarrow> nat list" where
  "held self = filter (\<lambda>p. p \<noteq> 0) [umap_params self, umap self, knn self]"

section \<open>Construction\<close>

text \<open>
  C1. Constructing \<^verbatim>\<open>CD\<close> with a loss other than \<^verbatim>\<open>'squared_loss'\<close> raises
  \<^verbatim>\<open>NotImplementedError\<close> in the constructor, whatever the other arguments are: no
  instance comes to exist on which fit could be called. With \<^verbatim>\<open>'squared_loss'\<close>
  the constructor returns an instance that keeps the loss.
\<close>

theorem CD_init_loss:
  "(kw_loss kw \<noteq> ''squared_loss'' \<longrightarrow> CD_init kw = Inl NotImplementedError) \<and>
   (kw_loss kw = ''squared_loss'' \<longrightarrow>
      (\<exists>self. CD_init kw = Inr self \<and> loss self = ''squared_loss''))"
  by (simp add: CD_init_def)

theorem CD_init_loss_witness:
  "CD_init (CD_defaults\<lparr>kw_loss := ''hinge''\<rparr>) = Inl NotImplementedError \<and>
   (\<exists>self. CD_init CD_defaults = Inr self \<and> loss self = ''squared_loss'')"
  using CD_init_loss [of "CD_defaults\<lparr>kw_loss := ''hinge''\<rparr>"] CD_init_loss [of CD_defaults]
  by (simp add: CD_defaults_def)

section \<open>Facts about the solver adapter\<close>

lemma populate_length: "length (elems (populate buf vals)) = length (elems buf)"
  by (simp add: populate_def)

lemma populate_shape: "shape (populate buf vals) = shape buf" "adtype (populate buf vals) = adtype buf"
  by (simp_all add: populate_def)

lemma input_ok_dims:
  "input_to_cuml_array X cdt conv cr cc = Inr (X_m, r, c, d) \<Longrightarrow>
     array_dims (shape X) = Some (r, c) \<and> d = adtype X_m \<and> shape X_m = shape X \<and> elems X_m = elems X \<and>
     (case conv of None \<Rightarrow> X_m = X | Some t \<Rightarrow> X_m = X\<lparr>adtype := t\<rparr>) \<and>
     (case cdt of None \<Rightarrow> True | Some ds \<Rightarrow> d \<in> set ds) \<and>
     (case cr of None \<Rightarrow> True | Some n \<Rightarrow> r = n) \<and>
     (case cc of None \<Rightarrow> True | Some n \<Rightarrow> c = n)"
  by (auto simp: input_to_cuml_array_def Let_def split: option.splits if_splits prod.splits)

lemma fit_native_intercept:
  "fit_native N self X_m n_rows nc dt y_m sw_m = (Some e, self', tr) \<Longrightarrow>
     fitted_intercept self' = fitted_intercept self"
  by (auto simp: fit_native_def Let_def split: sum.splits native_outcome.splits if_splits)

lemma CD_fit_failure_intercept:
  "CD_fit N self X y cd sw = (Some e, self', tr) \<Longrightarrow> fitted_intercept self' = fitted_intercept self"
  by (auto simp: CD_fit_def Let_def dest: fit_native_intercept split: sum.splits prod.splits)

lemma predict_native_unfitted:
  "fitted_intercept self = None \<Longrightarrow> predict_native N self dt X_m n_rows nc coef = (Inl TypeError, [])"
  by (simp add: predict_native_def Let_def)

lemma CD_predict_unfitted:
  "fitted_intercept self = None \<Longrightarrow> \<exists>e. CD_predict N self X cd = (Inl e, [])"
  by (auto simp: CD_predict_def predict_native_unfitted split: option.splits sum.splits prod.splits)

lemma unsuccessful_fits_intercept:
  "unsuccessful_fits N self0 calls = Some self \<Longrightarrow> fitted_intercept self = fitted_intercept self0"
proof (induction calls arbitrary: self0)
  case Nil
  then show ?case by simp
next
  case (Cons c calls)
  obtain X y cd sw where c: "c = (X, y, cd, sw)" by (cases c) auto
  obtain r self1 tr where f: "CD_fit N self0 X y cd sw = (r, self1, tr)"
    by (cases "CD_fit N self0 X y cd sw") auto
  with Cons.prems c obtain e where e: "r = Some e" and rest: "unsuccessful_fits N self1 calls = Some self"
    by (cases r) auto
  from Cons.IH [OF rest] CD_fit_failure_intercept [of N self0 X y cd sw e self1 tr] f e
  show ?case by simp
qed

lemma CD_init_unfitted:
  "CD_init kw = Inr self0 \<Longrightarrow>
     fitted_intercept self0 = None \<and> dtype self0 = None \<and> fitted_coef self0 = None \<and>
     n_cols self0 = None"
  by (auto simp: CD_init_def split: if_splits)


section \<open>Prediction\<close>

text \<open>
  C10. \<^verbatim>\<open>predict\<close> on an instance that no fit has completed on raises and makes no
  native call. On the instance as the constructor returns it \<open>coef_\<close> is
  \<^verbatim>\<open>None\<close>, \<open>n_cols\<close> and \<open>dtype\<close> do not exist, and the error is
  \<^verbatim>\<open>AttributeError\<close>, raised when \<open>self.dtype\<close> is read. After any number of fit calls
  that all raised it still raises: \<open>intercept_\<close> is still \<^verbatim>\<open>None\<close>, and the
  attributes read before it may be missing too.
\<close>

theorem CD_predict_before_fit:
  assumes "CD_init kw = Inr self0" and "unsuccessful_fits N self0 calls = Some self"
  shows "fitted_coef self0 = None \<and> n_cols self0 = None \<and> dtype self0 = None \<and>
         CD_predict N self0 X cd = (Inl AttributeError, []) \<and>
         (\<exists>e. CD_predict N self X cd = (Inl e, []))"
proof -
  from assms(1) have u: "fitted_intercept self0 = None" "dtype self0 = None"
    "fitted_coef self0 = None" "n_cols self0 = None"
    using CD_init_unfitted by auto
  from unsuccessful_fits_intercept [OF assms(2)] u have "fitted_intercept self = None" by simp
  then have "\<exists>e. CD_predict N self X cd = (Inl e, [])" by (rule CD_predict_unfitted)
  moreover from u have "CD_predict N self0 X cd = (Inl AttributeError, [])"
    by (simp add: CD_predict_def)
  ultimately show ?thesis using u by simp
qed

lemma cd0_init: "CD_init CD_defaults = Inr cd0"
  by (simp add: CD_init_def CD_defaults_def cd0_def Base_init_def)

lemma one_failed_fit: "unsuccessful_fits natives0 cd0 [(array32 [2, 2], array32 [3], False, None)]
      = Some (cd0\<lparr>n_cols := Some 2, dtype := Some Float32\<rparr>)"
  by (simp add: CD_fit_def input_to_cuml_array_def array32_def zeros_def)

theorem CD_predict_before_fit_witness:
  "CD_init CD_defaults = Inr cd0 \<and>
   unsuccessful_fits natives0 cd0 [(array32 [2, 2], array32 [3], False, None)]
      = Some (cd0\<lparr>n_cols := Some 2, dtype := Some Float32\<rparr>) \<and>
   CD_predict natives0 cd0 (array32 [2, 2]) False = (Inl AttributeError, []) \<and>
   (\<exists>e. CD_predict natives0 (cd0\<lparr>n_cols := Some 2, dtype := Some Float32\<rparr>) (array32 [2, 2]) False
          = (Inl e, []))"
  using CD_predict_before_fit [OF cd0_init one_failed_fit, of "array32 [2, 2]" False] cd0_init one_failed_fit
  by simp

lemma fit_native_success:
  "fit_native N self X_m n_rows nc dt y_m sw_m = (None, self', tr) \<Longrightarrow>
     \<exists>cv b p a. self' = self\<lparr>n_alpha := Some 1, fitted_coef := Some (populate (zeros [nc] dt) cv),
                      fitted_intercept := Some b\<rparr> \<and>
        loss self = ''squared_loss'' \<and>
        p = (if dt = Float32 then Single else Double) \<and>
        cdFit N p a = Returned (cv, b) \<and>
        tr = [CdFit p a, HandleSync (handle self)] \<and>
        fa_input a = X_m \<and> fa_n_rows a = n_rows \<and> fa_n_cols a = nc \<and> fa_labels a = y_m \<and>
        fa_coef a = zeros [nc] dt \<and> fa_sample_weight a = sw_m"
  by (auto simp: fit_native_def Let_def get_loss_int_def
      split: sum.splits native_outcome.splits if_splits)

lemma CD_fit_success:
  assumes "CD_fit N self X y cd sw = (None, self', tr)"
  shows "\<exists>X_m n_rows nc dt y_m yr sw_m.
        input_to_cuml_array X (Some [Float32, Float64]) None None None = Inr (X_m, n_rows, nc, dt) \<and>
        input_to_cuml_array y (Some [dt]) (if cd then Some dt else None) (Some n_rows) (Some 1)
           = Inr (y_m, yr) \<and>
        fit_sample_weight sw dt cd n_rows = Inr sw_m \<and>
        fit_native N (self\<lparr>n_cols := Some nc, dtype := Some dt\<rparr>) X_m n_rows nc dt y_m sw_m
           = (None, self', tr)"
proof -
  from assms obtain X_m n_rows nc dt where
    x: "input_to_cuml_array X (Some [Float32, Float64]) None None None = Inr (X_m, n_rows, nc, dt)"
    by (cases "input_to_cuml_array X (Some [Float32, Float64]) None None None")
       (auto simp: CD_fit_def)
  from assms x obtain y_m yr where
    y: "input_to_cuml_array y (Some [dt]) (if cd then Some dt else None) (Some n_rows) (Some 1)
           = Inr (y_m, yr)"
    by (cases "input_to_cuml_array y (Some [dt]) (if cd then Some dt else None) (Some n_rows) (Some 1)")
       (auto simp: CD_fit_def Let_def)
  from assms x y obtain sw_m where w: "fit_sample_weight sw dt cd n_rows = Inr sw_m"
    by (cases "fit_sample_weight sw dt cd n_rows") (auto simp: CD_fit_def Let_def)
  from assms x y w have
    "fit_native N (self\<lparr>n_cols := Some nc, dtype := Some dt\<rparr>) X_m n_rows nc dt y_m sw_m
           = (None, self', tr)"
    by (simp add: CD_fit_def Let_def)
  with x y w show ?thesis by blast
qed

lemma CD_fit_fitted:
  assumes "CD_fit N self X y cd sw = (None, self', tr)"
  shows "\<exists>nc dt cf b. n_cols self' = Some nc \<and> dtype self' = Some dt \<and> dt = adtype X \<and>
           (dt = Float32 \<or> dt = Float64) \<and>
           array_dims (shape X) = Some (fst (the (array_dims (shape X))), nc) \<and>
           fitted_coef self' = Some cf \<and> shape cf = [nc] \<and> adtype cf = dt \<and>
           length (elems cf) = nc \<and> fitted_intercept self' = Some b \<and>
           loss self' = ''squared_loss'' \<and> handle self' = handle self"
proof -
  from CD_fit_success [OF assms] obtain X_m n_rows nc dt y_m sw_m where
    x: "input_to_cuml_array X (Some [Float32, Float64]) None None None = Inr (X_m, n_rows, nc, dt)"
    and n: "fit_native N (self\<lparr>n_cols := Some nc, dtype := Some dt\<rparr>) X_m n_rows nc dt y_m sw_m
           = (None, self', tr)" by blast
  from input_ok_dims [OF x] have d: "array_dims (shape X) = Some (n_rows, nc)" "dt = adtype X"
     "dt = Float32 \<or> dt = Float64" by auto
  from fit_native_success [OF n] obtain cv b where
    s: "self' = self\<lparr>n_cols := Some nc, dtype := Some dt, n_alpha := Some 1,
          fitted_coef := Some (populate (zeros [nc] dt) cv), fitted_intercept := Some b\<rparr>"
    and l: "loss self = ''squared_loss''" by auto
  show ?thesis using d s l
    by (simp add: populate_length populate_shape zeros_def)
qed

lemma fit0:
  "\<exists>tr. CD_fit natives0 cd0 (array32 [4, 2]) (array32 [4]) False None = (None, cd_fitted0, tr)"
  by (simp add: CD_fit_def input_to_cuml_array_def array32_def zeros_def fit_sample_weight_def
      fit_native_def get_loss_int_def cd0_def natives0_def populate_def cd_fitted0_def Let_def)

lemma fit_native_trace:
  "fit_native N self X_m n_rows nc dt y_m sw_m = (None, self', tr) \<Longrightarrow> dt = Float32 \<or> dt = Float64 \<Longrightarrow>
     \<exists>p. dtype_of p = dt \<and>
        tr = [CdFit p (uniform_fit_args N p self X_m n_rows nc y_m sw_m), HandleSync (handle self)]"
  by (auto simp: fit_native_def Let_def get_loss_int_def uniform_fit_args_def
      split: sum.splits native_outcome.splits if_splits intro: exI [of _ Single] exI [of _ Double])

lemma predict_native_trace:
  "predict_native N self dt X_m n_rows nc coef = (Inr preds, tr) \<Longrightarrow> dt = Float32 \<or> dt = Float64 \<Longrightarrow>
     \<exists>p b pv. dtype_of p = dt \<and> fitted_intercept self = Some b \<and>
        cdPredict N p (uniform_predict_args N p X_m n_rows nc coef b) = Returned pv \<and>
        preds = populate (zeros [n_rows] dt) pv \<and>
        tr = [CdPredict p (uniform_predict_args N p X_m n_rows nc coef b), HandleSync (handle self)]"
  by (auto simp: predict_native_def Let_def get_loss_int_def uniform_predict_args_def
      split: sum.splits native_outcome.splits if_splits option.splits
      intro: exI [of _ Single] exI [of _ Double])


lemma CD_predict_success:
  assumes "CD_predict N self X cd = (Inr preds, tr)"
  shows "\<exists>dt fc X_m n_rows nc d coef.
      dtype self = Some dt \<and> n_cols self = Some fc \<and>
      input_to_cuml_array X (Some [dt]) (if cd then Some dt else None) None (Some fc)
        = Inr (X_m, n_rows, nc, d) \<and>
      fitted_coef self = Some coef \<and>
      predict_native N self dt X_m n_rows nc coef = (Inr preds, tr)"
proof -
  from assms obtain dt where d: "dtype self = Some dt"
    by (cases "dtype self") (auto simp: CD_predict_def)
  from assms d obtain fc where f: "n_cols self = Some fc"
    by (cases "n_cols self") (auto simp: CD_predict_def)
  from assms d f obtain X_m n_rows nc d' where
    x: "input_to_cuml_array X (Some [dt]) (if cd then Some dt else None) None (Some fc)
        = Inr (X_m, n_rows, nc, d')"
    by (cases "input_to_cuml_array X (Some [dt]) (if cd then Some dt else None) None (Some fc)")
       (auto simp: CD_predict_def)
  from assms d f x obtain coef where c: "fitted_coef self = Some coef"
    by (cases "fitted_coef self") (auto simp: CD_predict_def)
  from assms d f x c have "predict_native N self dt X_m n_rows nc coef = (Inr preds, tr)"
    by (simp add: CD_predict_def)
  with d f x c show ?thesis by blast
qed







section \<open>Precision dispatch\<close>

lemma uniform_fit_args_frame:
  "uniform_fit_args N p (self\<lparr>n_cols := a, dtype := b\<rparr>) = uniform_fit_args N p self"
  by (simp add: uniform_fit_args_def fun_eq_iff)

text \<open>
  C9, as the code has it. A fit that returns made exactly one native call, \<^verbatim>\<open>cdFit\<close>
  at the precision of \<open>X\<close>'s dtype, followed by the synchronisation; the coefficient
  buffer has that dtype. Every later predict that returns made exactly one native call,
  \<^verbatim>\<open>cdPredict\<close> at the precision recorded by the fit, on an input of that dtype:
  the caller's array, or its conversion when \<open>convert_dtype\<close> is set; the prediction
  buffer has the fitted dtype. In both dispatches the two branches pass the same
  arguments (\<open>uniform_fit_args\<close>, \<open>uniform_predict_args\<close>).
\<close>

theorem CD_dispatch_precision:
  assumes fit: "CD_fit N self X y cd sw = (None, self', tr)"
  shows "(\<exists>p n_rows nc y_m sw_m cf.
            dtype_of p = adtype X \<and>
            tr = [CdFit p (uniform_fit_args N p self X n_rows nc y_m sw_m),
                  HandleSync (handle self)] \<and>
            fitted_coef self' = Some cf \<and> adtype cf = adtype X) \<and>
         (\<forall>X2 cd2 preds tr2. CD_predict N self' X2 cd2 = (Inr preds, tr2) \<longrightarrow>
            (\<exists>p X_m n_rows nc cf b.
               dtype_of p = adtype X \<and>
               tr2 = [CdPredict p (uniform_predict_args N p X_m n_rows nc cf b),
                      HandleSync (handle self')] \<and>
               adtype X_m = adtype X \<and> adtype preds = adtype X \<and>
               (X_m = X2 \<or> cd2 \<and> X_m = X2\<lparr>adtype := adtype X\<rparr>)))"
proof -
  from CD_fit_success [OF fit] obtain X_m n_rows nc dt y_m sw_m where
    x: "input_to_cuml_array X (Some [Float32, Float64]) None None None = Inr (X_m, n_rows, nc, dt)"
    and n: "fit_native N (self\<lparr>n_cols := Some nc, dtype := Some dt\<rparr>) X_m n_rows nc dt y_m sw_m
           = (None, self', tr)" by blast
  from input_ok_dims [OF x] have d: "dt = adtype X" "dt = Float32 \<or> dt = Float64" "X_m = X"
    by auto
  from CD_fit_fitted [OF fit] obtain cf where
    f: "dtype self' = Some (adtype X)" "fitted_coef self' = Some cf" "adtype cf = adtype X"
    by blast
  from fit_native_trace [OF n d(2)] obtain p where
    pp: "dtype_of p = dt"
        "tr = [CdFit p (uniform_fit_args N p (self\<lparr>n_cols := Some nc, dtype := Some dt\<rparr>)
                         X_m n_rows nc y_m sw_m),
               HandleSync (handle (self\<lparr>n_cols := Some nc, dtype := Some dt\<rparr>))]"
    by blast
  from pp(2) d(3) have
    "tr = [CdFit p (uniform_fit_args N p self X n_rows nc y_m sw_m), HandleSync (handle self)]"
    by (simp add: uniform_fit_args_frame)
  with pp(1) d(1) f have one: "\<exists>p n_rows nc y_m sw_m cf.
            dtype_of p = adtype X \<and>
            tr = [CdFit p (uniform_fit_args N p self X n_rows nc y_m sw_m),
                  HandleSync (handle self)] \<and>
            fitted_coef self' = Some cf \<and> adtype cf = adtype X"
    by blast
  have two: "\<exists>p X_m n_rows nc cf b.
               dtype_of p = adtype X \<and>
               tr2 = [CdPredict p (uniform_predict_args N p X_m n_rows nc cf b),
                      HandleSync (handle self')] \<and>
               adtype X_m = adtype X \<and> adtype preds = adtype X \<and>
               (X_m = X2 \<or> cd2 \<and> X_m = X2\<lparr>adtype := adtype X\<rparr>)"
    if p: "CD_predict N self' X2 cd2 = (Inr preds, tr2)" for X2 cd2 preds tr2
  proof -
    from CD_predict_success [OF p] f(1) obtain fc X2_m r2 c2 d2 coef where
      i: "input_to_cuml_array X2 (Some [adtype X]) (if cd2 then Some (adtype X) else None)
            None (Some fc) = Inr (X2_m, r2, c2, d2)"
      and q: "predict_native N self' (adtype X) X2_m r2 c2 coef = (Inr preds, tr2)"
      by auto
    from input_ok_dims [OF i] have
      m: "adtype X2_m = adtype X" "X2_m = X2 \<or> cd2 \<and> X2_m = X2\<lparr>adtype := adtype X\<rparr>"
      by (auto split: if_splits)
    from d have "adtype X = Float32 \<or> adtype X = Float64" by simp
    from predict_native_trace [OF q this] obtain p' b pv where
      t: "dtype_of p' = adtype X" "preds = populate (zeros [r2] (adtype X)) pv"
         "tr2 = [CdPredict p' (uniform_predict_args N p' X2_m r2 c2 coef b),
                 HandleSync (handle self')]"
      by blast
    from t(2) have "adtype preds = adtype X" by (simp add: populate_shape zeros_def)
    with t m show ?thesis by blast
  qed
  from one two show ?thesis by blast
qed

theorem CD_dispatch_precision_witness:
  "(\<exists>p a. snd (snd (CD_fit natives0 cd0 (array32 [4, 2]) (array32 [4]) False None))
             = [CdFit p a, HandleSync FreshHandle] \<and> dtype_of p = Float32) \<and>
   (\<exists>cf. fitted_coef cd_fitted0 = Some cf \<and> adtype cf = Float32)"
proof -
  from fit0 obtain tr where
    f: "CD_fit natives0 cd0 (array32 [4, 2]) (array32 [4]) False None = (None, cd_fitted0, tr)" ..
  have "adtype (array32 [4, 2]) = Float32" "handle cd0 = FreshHandle"
    by (simp_all add: array32_def zeros_def cd0_def)
  with CD_dispatch_precision [OF f] f show ?thesis by auto
qed

text \<open>
  C9 as stated fails: a float64 input given to a model fitted in float32, with
  \<open>convert_dtype\<close>, goes to the single-precision \<^verbatim>\<open>cdPredict\<close> and the returned
  buffer is float32.
\<close>

theorem CD_dispatch_converted_input:
  "(\<exists>tr. CD_fit natives0 cd0 (array32 [4, 2]) (array32 [4]) False None = (None, cd_fitted0, tr)) \<and>
   adtype (array64 [3, 2]) = Float64 \<and>
   (\<exists>a preds. CD_predict natives0 cd_fitted0 (array64 [3, 2]) True
        = (Inr preds, [CdPredict Single a, HandleSync FreshHandle]) \<and> adtype preds = Float32)"
proof -
  have "\<exists>a preds. CD_predict natives0 cd_fitted0 (array64 [3, 2]) True
        = (Inr preds, [CdPredict Single a, HandleSync FreshHandle]) \<and> adtype preds = Float32"
    by (simp add: CD_predict_def input_to_cuml_array_def array64_def zeros_def
      predict_native_def get_loss_int_def cd0_def natives0_def populate_def cd_fitted0_def Let_def)
  moreover have "adtype (array64 [3, 2]) = Float64" by (simp add: array64_def zeros_def)
  ultimately show ?thesis using fit0 by simp
qed

section \<open>What a failing fit leaves behind\<close>








section \<open>Validation before the native call\<close>







section \<open>Facts about the embedding adapter\<close>

lemma release_cases:
  "release p (h, t) = Inr (h', t') \<Longrightarrow>
     (p = 0 \<and> h' = h \<and> t' = t) \<or>
     (p \<noteq> 0 \<and> objs h p \<noteq> None \<and> h' = h\<lparr>objs := (objs h)(p := None)\<rparr> \<and> t' = t @ [Delete p])"
  by (auto simp: release_def heap_delete_def split: if_splits option.splits sum.splits)

lemma release_trace:
  "release p (h, t) = Inr (h', t') \<Longrightarrow>
     filter is_sync t' = filter is_sync t \<and> filter is_transform t' = filter is_transform t \<and>
     filter is_native_fit t' = filter is_native_fit t"
  by (auto dest: release_cases)

lemma fit_body_trace:
  "fit_body N self h t X kw = (r, self', h', t') \<Longrightarrow>
     filter is_sync t' = filter is_sync t \<and> filter is_transform t' = filter is_transform t"
  by (auto simp: fit_body_def Let_def heap_new_def
      split: if_splits sum.splits native_outcome.splits prod.splits)

lemma UMAP1_fit_trace:
  assumes "UMAP1_fit N self h X kw = (r, self', h', tr)"
  shows "filter is_sync tr = [] \<and> filter is_transform tr = []"
proof (cases "release (umap_params self) (h, [])")
  case (Inl e)
  with assms show ?thesis by (simp add: UMAP1_fit_def)
next
  case (Inr a)
  then obtain h1 t1 where r1: "release (umap_params self) (h, []) = Inr (h1, t1)" by (cases a) auto
  note f1 = release_trace [OF r1]
  show ?thesis
  proof (cases "release (umap self) (h1, t1)")
    case (Inl e)
    with assms r1 f1 show ?thesis by (simp add: UMAP1_fit_def)
  next
    case (Inr b)
    then obtain h2 t2 where r2: "release (umap self) (h1, t1) = Inr (h2, t2)" by (cases b) auto
    note f2 = release_trace [OF r2]
    show ?thesis
    proof (cases "release (knn self) (h2, t2)")
      case (Inl e)
      with assms r1 r2 f1 f2 show ?thesis by (simp add: UMAP1_fit_def)
    next
      case (Inr c)
      then obtain h3 t3 where r3: "release (knn self) (h2, t2) = Inr (h3, t3)" by (cases c) auto
      note f3 = release_trace [OF r3]
      from assms r1 r2 r3 have "fit_body N self h3 t3 X kw = (r, self', h', tr)"
        by (simp add: UMAP1_fit_def)
      from fit_body_trace [OF this] f1 f2 f3 show ?thesis by simp
    qed
  qed
qed

lemma umap_fit0:
  "\<exists>emb self' h' P buf.
     UMAP1_fit natives0 UMAP1_cinit empty_heap (array32 [3, 4]) fit_defaults
       = (Inr emb, self', h',
          [NewKNN 1 4, NewUMAPParams 2, NewUMAP 3 2, UmapFit 3 P (array32 [3, 4]) 3 4 1 buf]) \<and>
     shape emb = [3, 2]"
  by (simp add: UMAP1_fit_def release_def UMAP1_cinit_def fit_body_def array32_def zeros_def
      row_matrix_def fit_defaults_def heap_new_def empty_heap_def init_code_def natives0_def
      populate_def Let_def)

section \<open>Synchronisation and the operations of the embedding adapter\<close>




text \<open>
  C2, as the code has it. \<^verbatim>\<open>fit\<close> is the only operation of \<^verbatim>\<open>UMAP1\<close>: a call of
  any other name raises \<^verbatim>\<open>AttributeError\<close> and changes nothing, and no call reaches
  the native transform routine, which is declared only.
\<close>

theorem UMAP1_only_fit:
  "(name \<noteq> ''fit'' \<longrightarrow> UMAP1_call N name self h X kw = (Inl AttributeError, self, h, [])) \<and>
   (UMAP1_call N name self h X kw = (r, self', h', tr) \<longrightarrow> filter is_transform tr = [])"
proof -
  have "filter is_transform tr = []" if c: "UMAP1_call N name self h X kw = (r, self', h', tr)"
  proof (cases "name = ''fit''")
    case True
    with c have "UMAP1_fit N self h X kw = (r, self', h', tr)"
      by (simp add: UMAP1_call_def UMAP1_methods_def)
    from UMAP1_fit_trace [OF this] show ?thesis by simp
  next
    case False
    with c show ?thesis by (auto simp: UMAP1_call_def UMAP1_methods_def)
  qed
  then show ?thesis by (simp add: UMAP1_call_def UMAP1_methods_def)
qed

theorem UMAP1_only_fit_witness:
  "UMAP1_call natives0 ''fit_transform'' UMAP1_cinit empty_heap (array32 [3, 4]) fit_defaults
     = (Inl AttributeError, UMAP1_cinit, empty_heap, []) \<and>
   filter is_transform
     (snd (snd (snd (UMAP1_call natives0 ''fit'' UMAP1_cinit empty_heap (array32 [3, 4])
        fit_defaults)))) = []"
proof -
  obtain r u' h' tr where
    g: "UMAP1_call natives0 ''fit'' UMAP1_cinit empty_heap (array32 [3, 4]) fit_defaults
          = (r, u', h', tr)"
    by (cases "UMAP1_call natives0 ''fit'' UMAP1_cinit empty_heap (array32 [3, 4]) fit_defaults")
       auto
  from UMAP1_only_fit
         [of "''fit_transform''" natives0 UMAP1_cinit empty_heap "array32 [3, 4]" fit_defaults]
       UMAP1_only_fit
         [of "''fit''" natives0 UMAP1_cinit empty_heap "array32 [3, 4]" fit_defaults r u' h' tr]
       g
  show ?thesis by simp
qed

text \<open>
  C2 as stated fails: after a fit that returned, calling \<^verbatim>\<open>transform\<close> raises
  \<^verbatim>\<open>AttributeError\<close>; no embedding is returned.
\<close>

theorem UMAP1_has_no_transform:
  "\<exists>emb self' h' tr.
     UMAP1_fit natives0 UMAP1_cinit empty_heap (array32 [3, 4]) fit_defaults
       = (Inr emb, self', h', tr) \<and>
     UMAP1_call natives0 ''transform'' self' h' (array32 [3, 4]) fit_defaults
       = (Inl AttributeError, self', h', [])"
proof -
  from umap_fit0 obtain emb self' h' tr where
    "UMAP1_fit natives0 UMAP1_cinit empty_heap (array32 [3, 4]) fit_defaults
       = (Inr emb, self', h', tr)"
    by blast
  then show ?thesis by (simp add: UMAP1_call_def UMAP1_methods_def)
qed

section \<open>The initialisation strategy\<close>



lemma fit_body_success:
  assumes "fit_body N self h t X kw = (Inr emb, self', h', t')"
  shows "\<exists>code P buf.
           init_code (f_init kw) = Inr code \<and> p_init P = code \<and>
           p_n_neighbors P = f_n_neighbors kw \<and> p_n_components P = f_n_components kw \<and>
           objs h' (umap_params self') = Some (Params_obj P) \<and>
           objs h' (umap self') = Some (UMAP_obj (umap_params self')) \<and>
           objs h' (knn self') = Some (KNN_obj (shape X ! 1)) \<and>
           t' = t @ [NewKNN (knn self') (shape X ! 1), NewUMAPParams (umap_params self'),
                     NewUMAP (umap self') (umap_params self'),
                     UmapFit (umap self') P X (shape X ! 0) (shape X ! 1) (knn self') buf] \<and>
           buf = zeros [shape X ! 0, nat (f_n_components kw)] Float32 \<and>
           emb = populate buf (UMAP_fit N P X (shape X ! 0) (shape X ! 1))"
  using assms
  by (auto simp: fit_body_def Let_def heap_new_def row_matrix_def
      split: if_splits sum.splits native_outcome.splits prod.splits)





section \<open>Native handles across fit calls\<close>

lemma fit_body_result:
  "fst (fit_body N self h t X kw) = fst (fit_body N self0 h0 t0 X kw)"
  by (auto simp: fit_body_def Let_def heap_new_def split: sum.splits native_outcome.splits prod.splits)

lemma release_null: "release 0 hs = Inr hs"
  by (simp add: release_def)

lemma release_live:
  "p \<noteq> 0 \<Longrightarrow> objs h p = Some v \<Longrightarrow>
     release p (h, t) = Inr (h\<lparr>objs := (objs h)(p := None)\<rparr>, t @ [Delete p])"
  by (simp add: release_def heap_delete_def)

lemma release_owned:
  assumes "p = 0 \<or> objs h p \<noteq> None"
  shows "\<exists>h'. release p (h, t) = Inr (h', t @ map Delete (filter (\<lambda>q. q \<noteq> 0) [p])) \<and>
           objs h' = (if p = 0 then objs h else (objs h)(p := None)) \<and>
           next_addr h' = next_addr h"
proof (cases "p = 0")
  case True
  then show ?thesis by (simp add: release_null)
next
  case False
  with assms obtain v where "objs h p = Some v" by auto
  from release_live [OF False this, of t] False show ?thesis by simp
qed

lemma kinds_differ:
  "holds_params v \<Longrightarrow> \<not> holds_umap v \<and> \<not> holds_knn v \<and> v \<noteq> None"
  "holds_umap v \<Longrightarrow> \<not> holds_knn v \<and> v \<noteq> None"
  "holds_knn v \<Longrightarrow> v \<noteq> None"
  by (cases v rule: holds_params.cases; simp)+

lemma owns_releases:
  assumes "owns self h"
  shows "\<exists>h3.
    UMAP1_fit N self h X kw = fit_body N self h3 (map Delete (held self)) X kw \<and>
    (\<forall>a. objs h3 a = (if a \<in> set (held self) then None else objs h a)) \<and>
    next_addr h3 = next_addr h"
proof -
  let ?p = "umap_params self" and ?u = "umap self" and ?k = "knn self"
  from assms have o:
    "?p = 0 \<or> holds_params (objs h ?p)"
    "?u = 0 \<or> holds_umap (objs h ?u)"
    "?k = 0 \<or> holds_knn (objs h ?k)"
    by (simp_all add: owns_def)
  have l1: "?p = 0 \<or> objs h ?p \<noteq> None"
    using o(1) kinds_differ(1) [of "objs h ?p"] by blast
  have l2: "?u = 0 \<or> objs h ?u \<noteq> None"
    using o(2) kinds_differ(2) [of "objs h ?u"] by blast
  have l3: "?k = 0 \<or> objs h ?k \<noteq> None"
    using o(3) kinds_differ(3) [of "objs h ?k"] by blast
  have n12: "?u \<noteq> ?p" if "?u \<noteq> 0" "?p \<noteq> 0"
  proof
    assume "?u = ?p"
    with o(1,2) that have "holds_params (objs h ?p)" "holds_umap (objs h ?p)" by simp_all
    with kinds_differ(1) [of "objs h ?p"] show False by simp
  qed
  have n13: "?k \<noteq> ?p" if "?k \<noteq> 0" "?p \<noteq> 0"
  proof
    assume "?k = ?p"
    with o(1,3) that have "holds_params (objs h ?p)" "holds_knn (objs h ?p)" by simp_all
    with kinds_differ(1) [of "objs h ?p"] show False by simp
  qed
  have n23: "?k \<noteq> ?u" if "?k \<noteq> 0" "?u \<noteq> 0"
  proof
    assume "?k = ?u"
    with o(2,3) that have "holds_umap (objs h ?u)" "holds_knn (objs h ?u)" by simp_all
    with kinds_differ(2) [of "objs h ?u"] show False by simp
  qed
  from release_owned [OF l1, of "[]"] obtain h1 where
    r1: "release ?p (h, []) = Inr (h1, [] @ map Delete (filter (\<lambda>q. q \<noteq> 0) [?p]))"
    and d1: "objs h1 = (if ?p = 0 then objs h else (objs h)(?p := None))"
            "next_addr h1 = next_addr h"
    by blast
  have "?u = 0 \<or> objs h1 ?u \<noteq> None"
  proof (cases "?u = 0")
    case True
    then show ?thesis by simp
  next
    case False
    with l2 have "objs h ?u \<noteq> None" by simp
    with False n12 d1(1) show ?thesis by (cases "?p = 0") simp_all
  qed
  from release_owned [OF this, of "[] @ map Delete (filter (\<lambda>q. q \<noteq> 0) [?p])"] obtain h2 where
    r2: "release ?u (h1, [] @ map Delete (filter (\<lambda>q. q \<noteq> 0) [?p]))
           = Inr (h2, ([] @ map Delete (filter (\<lambda>q. q \<noteq> 0) [?p]))
                        @ map Delete (filter (\<lambda>q. q \<noteq> 0) [?u]))"
    and d2: "objs h2 = (if ?u = 0 then objs h1 else (objs h1)(?u := None))"
            "next_addr h2 = next_addr h1"
    by blast
  have "?k = 0 \<or> objs h2 ?k \<noteq> None"
  proof (cases "?k = 0")
    case True
    then show ?thesis by simp
  next
    case False
    with l3 have "objs h ?k \<noteq> None" by simp
    with False n13 n23 d1(1) d2(1) show ?thesis
      by (cases "?p = 0"; cases "?u = 0") simp_all
  qed
  from release_owned [OF this, of "([] @ map Delete (filter (\<lambda>q. q \<noteq> 0) [?p]))
                        @ map Delete (filter (\<lambda>q. q \<noteq> 0) [?u])"] obtain h3 where
    r3: "release ?k (h2, ([] @ map Delete (filter (\<lambda>q. q \<noteq> 0) [?p]))
                        @ map Delete (filter (\<lambda>q. q \<noteq> 0) [?u]))
           = Inr (h3, (([] @ map Delete (filter (\<lambda>q. q \<noteq> 0) [?p]))
                        @ map Delete (filter (\<lambda>q. q \<noteq> 0) [?u]))
                        @ map Delete (filter (\<lambda>q. q \<noteq> 0) [?k]))"
    and d3: "objs h3 = (if ?k = 0 then objs h2 else (objs h2)(?k := None))"
            "next_addr h3 = next_addr h2"
    by blast
  have t: "(([] @ map Delete (filter (\<lambda>q. q \<noteq> 0) [?p]))
                        @ map Delete (filter (\<lambda>q. q \<noteq> 0) [?u]))
                        @ map Delete (filter (\<lambda>q. q \<noteq> 0) [?k]) = map Delete (held self)"
    by (simp add: held_def)
  from r1 r2 r3 have a: "UMAP1_fit N self h X kw = fit_body N self h3 (map Delete (held self)) X kw"
    unfolding t [symmetric] by (simp only: UMAP1_fit_def sum.case prod.case)
  have b: "objs h3 a = (if a \<in> set (held self) then None else objs h a)" for a
    unfolding d3(1) d2(1) d1(1) held_def by simp
  from a b d1(2) d2(2) d3(2) show ?thesis by auto
qed

lemma fit_on_owned_state_as_first_fit:
  assumes "owns self h"
  shows "fst (UMAP1_fit N self h X kw) = fst (UMAP1_fit N UMAP1_cinit empty_heap X kw)"
proof -
  from owns_releases [OF assms, of N X kw] obtain h3 where
    "UMAP1_fit N self h X kw = fit_body N self h3 (map Delete (held self)) X kw" by blast
  moreover have "UMAP1_fit N UMAP1_cinit empty_heap X kw
      = fit_body N UMAP1_cinit empty_heap [] X kw"
    by (simp add: UMAP1_fit_def UMAP1_cinit_def release_null)
  ultimately show ?thesis
    using fit_body_result [of N self h3 "map Delete (held self)" X kw UMAP1_cinit empty_heap "[]"]
    by simp
qed

lemma fit_body_heap:
  assumes "fit_body N self h t X kw = (Inr emb, self', h', t')"
  shows "umap_params self' = Suc (Suc (next_addr h)) \<and> knn self' = Suc (next_addr h) \<and>
         umap self' = Suc (Suc (Suc (next_addr h))) \<and>
         next_addr h' = Suc (Suc (Suc (next_addr h))) \<and>
         (\<forall>a. a \<notin> {knn self', umap_params self', umap self'} \<longrightarrow> objs h' a = objs h a)"
  using assms
  by (auto simp: fit_body_def Let_def heap_new_def
      split: if_splits sum.splits native_outcome.splits prod.splits)

lemma successful_fit_replaces_handles:
  assumes o: "owns self h" and f: "UMAP1_fit N self h X kw = (Inr emb, self', h', tr)"
  shows "owns self' h' \<and>
         dom (objs h') = (dom (objs h) - set (held self)) \<union> set (held self') \<and>
         (\<exists>P buf. tr = map Delete (held self) @
            [NewKNN (knn self') (shape X ! 1), NewUMAPParams (umap_params self'),
             NewUMAP (umap self') (umap_params self'),
             UmapFit (umap self') P X (shape X ! 0) (shape X ! 1) (knn self') buf])"
proof -
  from owns_releases [OF o, of N X kw] f obtain h3 where
    b: "fit_body N self h3 (map Delete (held self)) X kw = (Inr emb, self', h', tr)"
    and h3: "\<And>a. objs h3 a = (if a \<in> set (held self) then None else objs h a)"
    by auto
  from fit_body_success [OF b] obtain P buf where
    s: "objs h' (umap_params self') = Some (Params_obj P)"
       "objs h' (umap self') = Some (UMAP_obj (umap_params self'))"
       "objs h' (knn self') = Some (KNN_obj (shape X ! 1))"
       "tr = map Delete (held self) @
            [NewKNN (knn self') (shape X ! 1), NewUMAPParams (umap_params self'),
             NewUMAP (umap self') (umap_params self'),
             UmapFit (umap self') P X (shape X ! 0) (shape X ! 1) (knn self') buf]"
    by blast
  from fit_body_heap [OF b] have
    p: "umap_params self' \<noteq> 0" "knn self' \<noteq> 0" "umap self' \<noteq> 0"
    and rest: "\<And>a. a \<notin> {knn self', umap_params self', umap self'} \<Longrightarrow> objs h' a = objs h3 a"
    by auto
  from s have own: "owns self' h'" by (simp add: owns_def)
  from p have hs: "set (held self') = {knn self', umap_params self', umap self'}"
    by (auto simp: held_def)
  have "a \<in> dom (objs h') \<longleftrightarrow> a \<in> (dom (objs h) - set (held self)) \<union> set (held self')" for a
  proof (cases "a \<in> {knn self', umap_params self', umap self'}")
    case True
    with s(1-3) hs show ?thesis by auto
  next
    case False
    from rest [OF False] h3 [of a] False hs show ?thesis by (auto simp: dom_def)
  qed
  then have "dom (objs h') = (dom (objs h) - set (held self)) \<union> set (held self')" by blast
  with own s(4) show ?thesis by blast
qed

text \<open>
  C8. On an instance that owns its handles a fit that returns has deleted every handle
  it held before allocating, and holds three fresh ones (the two lemmas above). A fit
  that raises after the deletions leaves the deleted pointers in place: here a fit
  returns, a second one raises at the \<^verbatim>\<open>init\<close> check, \<open>self.umap\<close> still holds the
  address deleted by the second call, and the third call deletes it again.
\<close>

theorem UMAP1_fit_after_failed_fit:
  "\<exists>emb s1 h1 t1 s2 h2 t2 s3 h3 t3.
     UMAP1_fit natives0 UMAP1_cinit empty_heap (array32 [3, 4]) fit_defaults
       = (Inr emb, s1, h1, t1) \<and>
     UMAP1_fit natives0 s1 h1 (array32 [3, 4]) (fit_defaults\<lparr>f_init := PyStr ''pca''\<rparr>)
       = (Inl TypeError, s2, h2, t2) \<and>
     umap s2 = umap s1 \<and> umap s2 \<noteq> 0 \<and> objs h2 (umap s2) = None \<and>
     UMAP1_fit natives0 s2 h2 (array32 [3, 4]) fit_defaults = (Inl DoubleFree, s3, h3, t3)"
  by (simp add: UMAP1_fit_def release_def UMAP1_cinit_def fit_body_def array32_def zeros_def
      row_matrix_def fit_defaults_def heap_new_def heap_delete_def empty_heap_def init_code_def
      natives0_def populate_def Let_def)

end
